theory Spec2Isabelle
  imports
    Complex_Main
    "HOL-Library.Char_ord"
    "HOL-Library.List_Lexorder"
    "HOL-Library.Product_Lexorder"
begin

section \<open>Event-impact correlation (correlacion\_eventos.py)\<close>

text \<open>
  A shallow embedding of \<^verbatim>\<open>2.SCRIPTS/procesamiento/correlacion_eventos.py\<close>.

  Conventions of the embedding.
  \<^item> A tz-naive \<^verbatim>\<open>pd.Timestamp\<close> is the number of seconds since 1970-01-01T00:00:00;
    a calendar date (\<^verbatim>\<open>datetime.date\<close>, or a midnight timestamp of a daily table) is the
    number of days since 1970-01-01.
  \<^item> A float column is \<open>real option\<close>: \<open>None\<close> is NaN, \<open>Some x\<close> the number \<open>x\<close>
    (floats are read as exact reals).
  \<^item> A \<^verbatim>\<open>DataFrame\<close> is the list of its rows; a table that may be \<^verbatim>\<open>None\<close> is an option.
  \<^item> A raw event dictionary is a map from keys to string values (the collectors write
    every field with \<^verbatim>\<open>get_text\<close> or \<^verbatim>\<open>strftime\<close>).
  \<^item> \<^verbatim>\<open>pd.to_datetime(s, dayfirst=True)\<close> followed by the conversion to a naive UTC
    timestamp, and \<^verbatim>\<open>hashlib.md5(...).hexdigest()\<close>, are library functions: they are
    parameters \<open>to_datetime\<close> (\<open>None\<close> when the library raises) and \<open>md5\<close>.
\<close>

subsection \<open>Calendar\<close>

type_synonym timestamp = int
type_synonym date = int

definition date_of :: "timestamp \<Rightarrow> date" where
  "date_of ts = ts div 86400"

text \<open>\<^verbatim>\<open>.dt.dayofweek\<close>: Monday is 0; 1970-01-01 was a Thursday.\<close>

definition dayofweek :: "date \<Rightarrow> nat" where
  "dayofweek d = nat ((d + 3) mod 7)"

text \<open>\<^verbatim>\<open>.dt.month\<close> in the proleptic Gregorian calendar (1 is January).\<close>

definition month :: "date \<Rightarrow> nat" where
  "month d =
     (let z = d + 719468;
          doe = z mod 146097;
          yoe = (doe - doe div 1460 + doe div 36524 - doe div 146096) div 365;
          doy = doe - (365 * yoe + yoe div 4 - yoe div 100);
          mp = (5 * doy + 2) div 153
      in nat (if mp < 10 then mp + 3 else mp - 9))"

text \<open>
  \<^verbatim>\<open>pd.date_range(start, end, freq="D")\<close>: the timestamps \<open>start\<close>, \<open>start + 1 day\<close>, ...
  that do not pass \<open>stop\<close>; empty when \<open>stop < start\<close>.
\<close>

definition date_range :: "timestamp \<Rightarrow> timestamp \<Rightarrow> timestamp list" where
  "date_range start stop = map (\<lambda>k. start + 86400 * k) [0 .. (stop - start) div 86400]"

subsection \<open>Pandas reductions\<close>

text \<open>\<^verbatim>\<open>Series.mean()\<close> skips NaN and is NaN when nothing is left; \<^verbatim>\<open>count\<close> counts the
  values that are not NaN.\<close>

definition valid_values :: "real option list \<Rightarrow> real list" where
  "valid_values xs = map the (filter (\<lambda>v. v \<noteq> None) xs)"

definition pd_mean :: "real option list \<Rightarrow> real option" where
  "pd_mean xs =
     (let vs = valid_values xs
      in if vs = [] then None else Some (sum_list vs / real (length vs)))"

definition pd_count :: "real option list \<Rightarrow> nat" where
  "pd_count xs = length (valid_values xs)"

text \<open>Boolean indexing \<^verbatim>\<open>df[mask]\<close>.\<close>

definition select_mask :: "'a list \<Rightarrow> bool list \<Rightarrow> 'a list" where
  "select_mask df msk = map fst (filter snd (zip df msk))"

text \<open>\<^verbatim>\<open>round(x, ndigits)\<close> of Python and numpy: to the nearest multiple of
  \<open>10 ^ - ndigits\<close>, a tie goes to the even neighbour.\<close>

definition rint :: "real \<Rightarrow> int" where
  "rint x =
     (let f = \<lfloor>x\<rfloor>; r = x - of_int f
      in if r < 1 / 2 then f else if 1 / 2 < r then f + 1
         else if even f then f else f + 1)"

definition py_round :: "real \<Rightarrow> nat \<Rightarrow> real" where
  "py_round x ndigits = of_int (rint (x * 10 ^ ndigits)) / 10 ^ ndigits"

text \<open>\<^verbatim>\<open>round(v, n) if not np.isnan(v) else np.nan\<close>.\<close>

definition round_or_nan :: "real option \<Rightarrow> nat \<Rightarrow> real option" where
  "round_or_nan v ndigits = map_option (\<lambda>x. py_round x ndigits) v"

subsection \<open>Event normalizer\<close>

type_synonym raw_event = "string \<rightharpoonup> string"

text \<open>\<^verbatim>\<open>dict.get(key, default)\<close>.\<close>

definition dict_get :: "raw_event \<Rightarrow> string \<Rightarrow> string \<Rightarrow> string" where
  "dict_get d k dflt = (case d k of None \<Rightarrow> dflt | Some v \<Rightarrow> v)"

record event =
  evento_id :: string
  nombre :: string
  tipo_evento :: string
  impacto_esperado :: string
  fuente_evento :: string
  fecha_inicio :: timestamp
  fecha_fin :: timestamp

text \<open>\<^verbatim>\<open>str.strip()\<close> on the ASCII white space.\<close>

definition is_space :: "char \<Rightarrow> bool" where
  "is_space c = (of_char c \<in> {9, 10, 11, 12, 13, 28, 29, 30, 31, 32 :: nat})"

definition strip :: "string \<Rightarrow> string" where
  "strip s = rev (dropWhile is_space (rev (dropWhile is_space s)))"

definition parse_event_date :: "(string \<Rightarrow> timestamp option) \<Rightarrow> string \<Rightarrow> timestamp option" where
  "parse_event_date to_datetime date_str =
     (if date_str = [] then None
      else let s = strip date_str
           in if s = [] then None else to_datetime s)"

definition generate_event_id :: "(string \<Rightarrow> string) \<Rightarrow> raw_event \<Rightarrow> string" where
  "generate_event_id md5 evento =
     (let nom = dict_get evento ''nombre'' (dict_get evento ''rival'' ''desconocido'');
          fecha_ini = dict_get evento ''fecha_inicio'' [];
          fuente = dict_get evento ''fuente'' [];
          raw = nom @ ''|'' @ fecha_ini @ ''|'' @ fuente
      in take 12 (md5 raw))"

text \<open>The body of the parsing loop: \<open>None\<close> is the \<^verbatim>\<open>continue\<close> of a record whose start
  date does not parse.\<close>

definition parse_event ::
  "(string \<Rightarrow> timestamp option) \<Rightarrow> (string \<Rightarrow> string) \<Rightarrow> raw_event \<Rightarrow> event option" where
  "parse_event to_datetime md5 evento =
     (let nom = dict_get evento ''nombre'' (dict_get evento ''rival'' ''Evento desconocido'')
      in case parse_event_date to_datetime (dict_get evento ''fecha_inicio'' []) of
           None \<Rightarrow> None
         | Some f_ini \<Rightarrow>
             (let f_fin =
                    (case parse_event_date to_datetime (dict_get evento ''fecha_fin'' []) of
                       None \<Rightarrow> f_ini
                     | Some f \<Rightarrow> f);
                  swapped = (f_fin < f_ini)
              in Some \<lparr> evento_id = generate_event_id md5 evento,
                        nombre = nom,
                        tipo_evento = dict_get evento ''tipo'' ''desconocido'',
                        impacto_esperado = dict_get evento ''impacto_esperado'' ''desconocido'',
                        fuente_evento = dict_get evento ''fuente'' ''desconocida'',
                        fecha_inicio = (if swapped then f_fin else f_ini),
                        fecha_fin = (if swapped then f_ini else f_fin) \<rparr>))"

fun parse_loop ::
  "(string \<Rightarrow> timestamp option) \<Rightarrow> (string \<Rightarrow> string) \<Rightarrow> raw_event list \<Rightarrow> event list" where
  "parse_loop to_datetime md5 [] = []"
| "parse_loop to_datetime md5 (evento # rest) =
     (case parse_event to_datetime md5 evento of
        None \<Rightarrow> parse_loop to_datetime md5 rest
      | Some ev \<Rightarrow> ev # parse_loop to_datetime md5 rest)"

text \<open>The deduplication loop with its set \<^verbatim>\<open>seen_ids\<close>.\<close>

fun dedup_loop :: "string set \<Rightarrow> event list \<Rightarrow> event list" where
  "dedup_loop seen_ids [] = []"
| "dedup_loop seen_ids (ev # rest) =
     (if evento_id ev \<notin> seen_ids
      then ev # dedup_loop (insert (evento_id ev) seen_ids) rest
      else dedup_loop seen_ids rest)"

definition parse_and_deduplicate_events ::
  "(string \<Rightarrow> timestamp option) \<Rightarrow> (string \<Rightarrow> string) \<Rightarrow> raw_event list \<Rightarrow> event list" where
  "parse_and_deduplicate_events to_datetime md5 eventos_raw =
     dedup_loop {} (parse_loop to_datetime md5 eventos_raw)"

text \<open>The counters the function logs.\<close>

definition skipped_no_date ::
  "(string \<Rightarrow> timestamp option) \<Rightarrow> (string \<Rightarrow> string) \<Rightarrow> raw_event list \<Rightarrow> nat" where
  "skipped_no_date to_datetime md5 eventos_raw =
     length (filter (\<lambda>e. parse_event to_datetime md5 e = None) eventos_raw)"

definition duplicados ::
  "(string \<Rightarrow> timestamp option) \<Rightarrow> (string \<Rightarrow> string) \<Rightarrow> raw_event list \<Rightarrow> nat" where
  "duplicados to_datetime md5 eventos_raw =
     length (parse_loop to_datetime md5 eventos_raw)
       - length (parse_and_deduplicate_events to_datetime md5 eventos_raw)"

subsection \<open>Daily aggregations\<close>

text \<open>The input tables (only the columns the script reads) and the daily tables it builds.\<close>

record contam_reg =
  fecha_utc :: timestamp
  variable :: string
  valor :: "real option"
  calidad_dato :: string

record contam_dia =
  cd_fecha :: date
  cd_variable :: string
  valor_medio :: "real option"
  n_registros :: nat

record trafico_reg =
  t_fecha :: timestamp

record trafico_dia =
  td_fecha :: date
  n_incidencias :: nat

record meteo_reg =
  m_fecha :: timestamp
  precipitacion_mm :: "real option"
  temp_c :: "real option"

record meteo_dia =
  md_fecha :: date
  precip_media :: "real option"
  temp_media :: "real option"

text \<open>Step 2A: keep \<^verbatim>\<open>calidad_dato == "ok"\<close>, group by (date, variable) with sorted keys,
  aggregate \<^verbatim>\<open>valor\<close> with \<^verbatim>\<open>mean\<close> and \<^verbatim>\<open>count\<close>.\<close>

definition contam_diaria_of :: "contam_reg list \<Rightarrow> contam_dia list" where
  "contam_diaria_of df_contam =
     (let df_ok = filter (\<lambda>r. calidad_dato r = ''ok'') df_contam;
          claves = sort (remdups (map (\<lambda>r. (date_of (fecha_utc r), variable r)) df_ok))
      in map (\<lambda>(f, v).
                let grupo = filter (\<lambda>r. date_of (fecha_utc r) = f \<and> variable r = v) df_ok
                in \<lparr> cd_fecha = f, cd_variable = v,
                     valor_medio = pd_mean (map valor grupo),
                     n_registros = pd_count (map valor grupo) \<rparr>)
             claves)"

text \<open>Step 2B: group by date, count the records of each day.\<close>

definition trafico_diario_of :: "trafico_reg list \<Rightarrow> trafico_dia list" where
  "trafico_diario_of df_trafico =
     (let claves = sort (remdups (map (\<lambda>r. date_of (t_fecha r)) df_trafico))
      in map (\<lambda>f. \<lparr> td_fecha = f,
                     n_incidencias = length (filter (\<lambda>r. date_of (t_fecha r) = f) df_trafico) \<rparr>)
             claves)"

text \<open>Step 2C: group by date, mean precipitation and mean temperature.\<close>

definition meteo_diaria_of :: "meteo_reg list \<Rightarrow> meteo_dia list" where
  "meteo_diaria_of df_meteo =
     (let claves = sort (remdups (map (\<lambda>r. date_of (m_fecha r)) df_meteo))
      in map (\<lambda>f. let grupo = filter (\<lambda>r. date_of (m_fecha r) = f) df_meteo
                   in \<lparr> md_fecha = f,
                        precip_media = pd_mean (map precipitacion_mm grupo),
                        temp_media = pd_mean (map temp_c grupo) \<rparr>)
             claves)"


subsection \<open>Baseline selector\<close>

definition PRECIPITACION_UMBRAL_MM :: real where
  "PRECIPITACION_UMBRAL_MM = 5"

text \<open>The dates \<^verbatim>\<open>set(d.date() for d in pd.date_range(start, end, freq="D"))\<close> of an event.\<close>

definition event_dates :: "event \<Rightarrow> date set" where
  "event_dates ev = set (map date_of (date_range (fecha_inicio ev) (fecha_fin ev)))"

fun get_all_event_dates :: "event list \<Rightarrow> date set" where
  "get_all_event_dates [] = {}"
| "get_all_event_dates (ev # rest) =
     set (map date_of (date_range (fecha_inicio ev) (fecha_fin ev))) \<union> get_all_event_dates rest"

text \<open>\<^verbatim>\<open>fechas_serie.dt.date.map(meteo_lookup)\<close>: NaN for a date without a row, and the
  row's \<^verbatim>\<open>precip_media\<close> (possibly NaN) otherwise.\<close>

definition precip_values :: "meteo_dia list \<Rightarrow> date \<Rightarrow> real option" where
  "precip_values meteo_diaria f =
     (case map_of (map (\<lambda>r. (md_fecha r, precip_media r)) meteo_diaria) f of
        None \<Rightarrow> None
      | Some p \<Rightarrow> p)"


definition build_baseline_mask ::
  "date list \<Rightarrow> event \<Rightarrow> date set \<Rightarrow> meteo_dia list option \<Rightarrow> bool list" where
  "build_baseline_mask fechas_serie evento all_event_dates meteo_diaria =
     (let event_range = date_range (fecha_inicio evento) (fecha_fin evento);
          event_months = set (map (\<lambda>d. month (date_of d)) event_range);
          event_weekdays = set (map (\<lambda>d. dayofweek (date_of d)) event_range);
          mask_month = map (\<lambda>f. month f \<in> event_months) fechas_serie;
          mask_weekday = map (\<lambda>f. dayofweek f \<in> event_weekdays) fechas_serie;
          mask_no_event = map (\<lambda>f. f \<notin> all_event_dates) fechas_serie;
          mask_no_rain =
            (case meteo_diaria of
               None \<Rightarrow> map (\<lambda>f. True) fechas_serie
             | Some m \<Rightarrow>
                 if m \<noteq> []
                 then map (\<lambda>f. case precip_values m f of
                                  None \<Rightarrow> True
                                | Some p \<Rightarrow> p \<le> PRECIPITACION_UMBRAL_MM) fechas_serie
                 else map (\<lambda>f. True) fechas_serie)
      in map (\<lambda>(a, b, c, d). a \<and> b \<and> c \<and> d)
             (zip mask_month (zip mask_weekday (zip mask_no_event mask_no_rain))))"

subsection \<open>Impact calculator\<close>

record impact_row =
  row_evento_id :: string
  nombre_evento :: string
  row_tipo_evento :: string
  row_impacto_esperado :: string
  row_fecha_inicio :: date
  row_fecha_fin :: date
  row_variable :: string
  media_evento :: "real option"
  media_baseline :: "real option"
  impacto_pct :: "real option"
  n_dias_evento :: nat
  n_dias_baseline :: nat
  media_temp_evento :: "real option"
  media_temp_baseline :: "real option"
  media_precip_evento :: "real option"
  media_precip_baseline :: "real option"
  impacto_trafico_pct :: "real option"

text \<open>The guarded percentage, written twice in the source (traffic and pollution):
  \<^verbatim>\<open>if not isnan(ev) and not isnan(bl) and bl > 0: (ev - bl) / bl * 100\<close>, NaN otherwise.\<close>

definition calc_impacto :: "real option \<Rightarrow> real option \<Rightarrow> real option" where
  "calc_impacto media_ev media_bl =
     (case media_ev of
        None \<Rightarrow> None
      | Some e \<Rightarrow>
          (case media_bl of
             None \<Rightarrow> None
           | Some b \<Rightarrow> if 0 < b then Some ((e - b) / b * 100) else None))"

text \<open>Weather context of one event: (temp event, precip event, temp baseline, precip baseline).\<close>

definition meteo_contexto ::
  "event \<Rightarrow> date set \<Rightarrow> meteo_dia list option
   \<Rightarrow> real option \<times> real option \<times> real option \<times> real option" where
  "meteo_contexto evento all_event_dates meteo_diaria =
     (case meteo_diaria of
        None \<Rightarrow> (None, None, None, None)
      | Some m \<Rightarrow>
          if m \<noteq> []
          then (let meteo_ev = filter (\<lambda>r. md_fecha r \<in> event_dates evento) m;
                    meteo_bl = select_mask m
                      (build_baseline_mask (map md_fecha m) evento all_event_dates meteo_diaria)
                in ((if meteo_ev \<noteq> [] then pd_mean (map temp_media meteo_ev) else None),
                    (if meteo_ev \<noteq> [] then pd_mean (map precip_media meteo_ev) else None),
                    (if meteo_bl \<noteq> [] then pd_mean (map temp_media meteo_bl) else None),
                    (if meteo_bl \<noteq> [] then pd_mean (map precip_media meteo_bl) else None)))
          else (None, None, None, None))"

text \<open>Traffic impact of one event (before rounding).\<close>

definition calc_impacto_trafico ::
  "event \<Rightarrow> date set \<Rightarrow> trafico_dia list option \<Rightarrow> meteo_dia list option \<Rightarrow> real option" where
  "calc_impacto_trafico evento all_event_dates trafico_diario meteo_diaria =
     (case trafico_diario of
        None \<Rightarrow> None
      | Some t \<Rightarrow>
          if t \<noteq> []
          then (let traf_ev = filter (\<lambda>r. td_fecha r \<in> event_dates evento) t;
                    media_traf_evento =
                      (if traf_ev \<noteq> []
                       then pd_mean (map (\<lambda>r. Some (real (n_incidencias r))) traf_ev) else None);
                    traf_bl = select_mask t
                      (build_baseline_mask (map td_fecha t) evento all_event_dates meteo_diaria);
                    media_traf_baseline =
                      (if traf_bl \<noteq> []
                       then pd_mean (map (\<lambda>r. Some (real (n_incidencias r))) traf_bl) else None)
                in calc_impacto media_traf_evento media_traf_baseline)
          else None)"

text \<open>The event-window and baseline-window means and day counts of one variable.\<close>

definition datos_ev_of :: "event \<Rightarrow> contam_dia list \<Rightarrow> contam_dia list" where
  "datos_ev_of evento df_var = filter (\<lambda>r. cd_fecha r \<in> event_dates evento) df_var"

definition datos_bl_of ::
  "event \<Rightarrow> date set \<Rightarrow> meteo_dia list option \<Rightarrow> contam_dia list \<Rightarrow> contam_dia list" where
  "datos_bl_of evento all_event_dates meteo_diaria df_var =
     select_mask df_var
       (build_baseline_mask (map cd_fecha df_var) evento all_event_dates meteo_diaria)"

definition media_de :: "contam_dia list \<Rightarrow> real option" where
  "media_de datos = (if datos \<noteq> [] then pd_mean (map valor_medio datos) else None)"

definition n_dias_de :: "contam_dia list \<Rightarrow> nat" where
  "n_dias_de datos = (if datos \<noteq> [] then length (remdups (map cd_fecha datos)) else 0)"

text \<open>The row appended for one event and one variable. The weather context \<open>ctx\<close> and the
  traffic impact \<open>impacto_trafico\<close> were computed before, once for the event.\<close>

definition fila_variable ::
  "event \<Rightarrow> date set \<Rightarrow> meteo_dia list option
   \<Rightarrow> real option \<times> real option \<times> real option \<times> real option \<Rightarrow> real option
   \<Rightarrow> contam_dia list \<Rightarrow> string \<Rightarrow> impact_row" where
  "fila_variable evento all_event_dates meteo_diaria ctx impacto_trafico df_var var =
     (let datos_ev = datos_ev_of evento df_var;
          media_evento_val = media_de datos_ev;
          n_dias_ev_real = n_dias_de datos_ev;
          datos_bl = datos_bl_of evento all_event_dates meteo_diaria df_var;
          media_baseline_val = media_de datos_bl;
          n_dias_bl = n_dias_de datos_bl;
          impacto = calc_impacto media_evento_val media_baseline_val;
          (temp_ev, precip_ev, temp_bl, precip_bl) = ctx
      in \<lparr> row_evento_id = evento_id evento,
           nombre_evento = nombre evento,
           row_tipo_evento = tipo_evento evento,
           row_impacto_esperado = impacto_esperado evento,
           row_fecha_inicio = date_of (fecha_inicio evento),
           row_fecha_fin = date_of (fecha_fin evento),
           row_variable = var,
           media_evento = round_or_nan media_evento_val 2,
           media_baseline = round_or_nan media_baseline_val 2,
           impacto_pct = round_or_nan impacto 2,
           n_dias_evento = n_dias_ev_real,
           n_dias_baseline = n_dias_bl,
           media_temp_evento = round_or_nan temp_ev 1,
           media_temp_baseline = round_or_nan temp_bl 1,
           media_precip_evento = round_or_nan precip_ev 2,
           media_precip_baseline = round_or_nan precip_bl 2,
           impacto_trafico_pct = round_or_nan impacto_trafico 2 \<rparr>)"

text \<open>The row appended for an event when there is no pollution variable at all.\<close>

definition fila_sin_datos ::
  "event \<Rightarrow> real option \<times> real option \<times> real option \<times> real option \<Rightarrow> real option
   \<Rightarrow> impact_row" where
  "fila_sin_datos evento ctx impacto_trafico =
     (let (temp_ev, precip_ev, temp_bl, precip_bl) = ctx
      in \<lparr> row_evento_id = evento_id evento,
           nombre_evento = nombre evento,
           row_tipo_evento = tipo_evento evento,
           row_impacto_esperado = impacto_esperado evento,
           row_fecha_inicio = date_of (fecha_inicio evento),
           row_fecha_fin = date_of (fecha_fin evento),
           row_variable = ''sin_datos'',
           media_evento = None,
           media_baseline = None,
           impacto_pct = None,
           n_dias_evento = card (event_dates evento),
           n_dias_baseline = 0,
           media_temp_evento = round_or_nan temp_ev 1,
           media_temp_baseline = round_or_nan temp_bl 1,
           media_precip_evento = round_or_nan precip_ev 2,
           media_precip_baseline = round_or_nan precip_bl 2,
           impacto_trafico_pct = round_or_nan impacto_trafico 2 \<rparr>)"

text \<open>\<^verbatim>\<open>sorted(contam_diaria["variable"].unique())\<close>, empty without a pollution table.\<close>

definition variables_contam_of :: "contam_dia list option \<Rightarrow> string list" where
  "variables_contam_of contam_diaria =
     (case contam_diaria of
        None \<Rightarrow> []
      | Some c \<Rightarrow> if c \<noteq> [] then sort (remdups (map cd_variable c)) else [])"

text \<open>The inner loop over the variables: a variable without rows is skipped.\<close>

fun filas_variables ::
  "event \<Rightarrow> date set \<Rightarrow> meteo_dia list option
   \<Rightarrow> real option \<times> real option \<times> real option \<times> real option \<Rightarrow> real option
   \<Rightarrow> contam_dia list \<Rightarrow> string list \<Rightarrow> impact_row list" where
  "filas_variables evento all_event_dates meteo_diaria ctx impacto_trafico contam [] = []"
| "filas_variables evento all_event_dates meteo_diaria ctx impacto_trafico contam (var # rest) =
     (let df_var = filter (\<lambda>r. cd_variable r = var) contam
      in if df_var = []
         then filas_variables evento all_event_dates meteo_diaria ctx impacto_trafico contam rest
         else fila_variable evento all_event_dates meteo_diaria ctx impacto_trafico df_var var
              # filas_variables evento all_event_dates meteo_diaria ctx impacto_trafico contam rest)"

text \<open>The body of the loop over the events: weather context, traffic impact, then the rows.\<close>

definition filas_evento ::
  "event \<Rightarrow> date set \<Rightarrow> contam_dia list option \<Rightarrow> trafico_dia list option
   \<Rightarrow> meteo_dia list option \<Rightarrow> impact_row list" where
  "filas_evento evento all_event_dates contam_diaria trafico_diario meteo_diaria =
     (let variables_contam = variables_contam_of contam_diaria;
          ctx = meteo_contexto evento all_event_dates meteo_diaria;
          impacto_trafico =
            calc_impacto_trafico evento all_event_dates trafico_diario meteo_diaria
      in if variables_contam \<noteq> []
         then filas_variables evento all_event_dates meteo_diaria ctx impacto_trafico
                (case contam_diaria of None \<Rightarrow> [] | Some c \<Rightarrow> c) variables_contam
         else [fila_sin_datos evento ctx impacto_trafico])"

definition compute_event_impact ::
  "event list \<Rightarrow> contam_dia list option \<Rightarrow> trafico_dia list option \<Rightarrow> meteo_dia list option
   \<Rightarrow> impact_row list" where
  "compute_event_impact events contam_diaria trafico_diario meteo_diaria =
     (if events = [] then []
      else (let all_event_dates = get_all_event_dates events
            in concat (map (\<lambda>evento.
                 filas_evento evento all_event_dates contam_diaria trafico_diario meteo_diaria)
               events)))"

subsection \<open>Orchestration\<close>






subsection \<open>Reference notions for the aggregation\<close>

text \<open>
  What the aggregation is compared with: the numbers of the readings of one day and one
  variable that are flagged \<^verbatim>\<open>ok\<close> and carry a number, the numbers of one weather column
  of one day, and the arithmetic mean of a list of numbers (undefined for the empty list).
\<close>

definition lecturas_validas :: "contam_reg list \<Rightarrow> date \<Rightarrow> string \<Rightarrow> real list" where
  "lecturas_validas df f v =
     map (\<lambda>r. the (valor r))
       (filter (\<lambda>r. calidad_dato r = ''ok'' \<and> date_of (fecha_utc r) = f \<and> variable r = v
                     \<and> valor r \<noteq> None) df)"

definition lecturas_meteo :: "(meteo_reg \<Rightarrow> real option) \<Rightarrow> meteo_reg list \<Rightarrow> date \<Rightarrow> real list" where
  "lecturas_meteo col df f =
     map (\<lambda>r. the (col r)) (filter (\<lambda>r. date_of (m_fecha r) = f \<and> col r \<noteq> None) df)"

definition media_aritmetica :: "real list \<Rightarrow> real option" where
  "media_aritmetica vs = (if vs = [] then None else Some (sum_list vs / real (length vs)))"

text \<open>
  Step 5 of \<^verbatim>\<open>normalizar_contaminacion.py\<close> (\<^verbatim>\<open>validar_rangos\<close>) writes the column
  \<^verbatim>\<open>calidad_dato\<close> that the aggregation filters on: \<^verbatim>\<open>missing\<close> for a row without a
  value, \<^verbatim>\<open>invalid\<close> for a value outside the physical range of its variable, \<^verbatim>\<open>ok\<close>
  otherwise. The table of ranges is a parameter.
\<close>

definition validar_rangos :: "(string \<rightharpoonup> real \<times> real) \<Rightarrow> contam_reg list \<Rightarrow> contam_reg list" where
  "validar_rangos RANGOS_FISICOS df =
     map (\<lambda>r. r\<lparr> calidad_dato :=
                  (case valor r of
                     None \<Rightarrow> ''missing''
                   | Some v \<Rightarrow>
                       (case RANGOS_FISICOS (variable r) of
                          None \<Rightarrow> ''ok''
                        | Some (lo, hi) \<Rightarrow> if v < lo \<or> hi < v then ''invalid'' else ''ok'')) \<rparr>)
         df"

subsection \<open>Scenario data\<close>

text \<open>
  Concrete inputs on which the theorems below are exercised. Day 20513 is Sunday 2026-03-01,
  day 20519 is Saturday 2026-03-07, days 20526 and 20533 are the two Saturdays after it and
  day 20491 is Saturday 2026-02-07. \<open>demo_to_datetime\<close> stands for the date parser on the
  strings of the scenarios, and list reversal stands for the digest.
\<close>

definition demo_to_datetime :: "string \<Rightarrow> timestamp option" where
  "demo_to_datetime s =
     (if s = ''2026-03-01'' then Some (86400 * 20513)
      else if s = ''2026-03-03'' then Some (86400 * 20515)
      else if s = ''07/03/2026'' then Some (86400 * 20519)
      else None)"

definition festival :: raw_event where
  "festival = [''nombre'' \<mapsto> ''Local Festival'', ''fecha_inicio'' \<mapsto> ''2026-03-01'',
               ''fecha_fin'' \<mapsto> ''2026-03-03'', ''fuente'' \<mapsto> ''muni'']"


definition ev_sabado :: event where
  "ev_sabado = \<lparr> evento_id = ''e1'', nombre = ''Partido'', tipo_evento = ''puntual'',
                  impacto_esperado = ''alto'', fuente_evento = ''muni'',
                  fecha_inicio = 86400 * 20519, fecha_fin = 86400 * 20519 \<rparr>"

definition meteo_demo :: "meteo_dia list" where
  "meteo_demo = [\<lparr> md_fecha = 20526, precip_media = Some 0, temp_media = Some 15 \<rparr>,
                 \<lparr> md_fecha = 20533, precip_media = Some 8, temp_media = Some 14 \<rparr>]"

text \<open>
  Four readings of one day, one of them without a value, and an out-of-range reading the
  day after; daily pollution tables with one and with two variables; a daily traffic
  table; two weather observations; an event record whose start date does not parse.
\<close>

definition contam_regs_demo :: "contam_reg list" where
  "contam_regs_demo =
     [\<lparr> fecha_utc = 86400 * 20513 + 3600, variable = ''NO2'', valor = Some 10, calidad_dato = ''ok'' \<rparr>,
      \<lparr> fecha_utc = 86400 * 20513 + 7200, variable = ''NO2'', valor = Some 20, calidad_dato = ''ok'' \<rparr>,
      \<lparr> fecha_utc = 86400 * 20513 + 10800, variable = ''NO2'', valor = None, calidad_dato = ''missing'' \<rparr>,
      \<lparr> fecha_utc = 86400 * 20513 + 14400, variable = ''NO2'', valor = Some 30, calidad_dato = ''ok'' \<rparr>,
      \<lparr> fecha_utc = 86400 * 20514 + 3600, variable = ''NO2'', valor = Some 9999, calidad_dato = ''invalid'' \<rparr>]"



definition contam_demo2 :: "contam_dia list" where
  "contam_demo2 =
     [\<lparr> cd_fecha = 20519, cd_variable = ''NO2'', valor_medio = Some 50, n_registros = 24 \<rparr>,
      \<lparr> cd_fecha = 20519, cd_variable = ''PM10'', valor_medio = Some 30, n_registros = 24 \<rparr>,
      \<lparr> cd_fecha = 20526, cd_variable = ''NO2'', valor_medio = Some 25, n_registros = 24 \<rparr>,
      \<lparr> cd_fecha = 20526, cd_variable = ''PM10'', valor_medio = Some 0, n_registros = 24 \<rparr>]"

definition trafico_demo :: "trafico_dia list" where
  "trafico_demo = [\<lparr> td_fecha = 20519, n_incidencias = 6 \<rparr>,
                   \<lparr> td_fecha = 20526, n_incidencias = 4 \<rparr>]"



section \<open>Properties\<close>

subsection \<open>Event normalizer\<close>


lemma dedup_loop_ids:
  "evento_id ` set (dedup_loop seen xs) = evento_id ` set xs - seen"
  by (induction xs arbitrary: seen) auto

lemma dedup_loop_distinct: "distinct (map evento_id (dedup_loop seen xs))"
proof (induction xs arbitrary: seen)
  case Nil
  show ?case by simp
next
  case (Cons ev rest)
  have "evento_id ev \<notin> evento_id ` set (dedup_loop (insert (evento_id ev) seen) rest)"
    by (simp add: dedup_loop_ids)
  with Cons show ?case by simp
qed

lemma dedup_loop_find:
  "find (\<lambda>e. evento_id e = i) (dedup_loop seen xs) =
     (if i \<in> seen then None else find (\<lambda>e. evento_id e = i) xs)"
  by (induction xs arbitrary: seen) auto

lemma distinct_count_one:
  "distinct (map f xs) \<Longrightarrow> x \<in> set xs \<Longrightarrow> length (filter (\<lambda>y. f y = f x) xs) = 1"
proof (induction xs)
  case Nil
  then show ?case by simp
next
  case (Cons a xs)
  show ?case
  proof (cases "f a = f x")
    case True
    with Cons.prems have "f x \<notin> f ` set xs" by auto
    then have "\<forall>y\<in>set xs. f y \<noteq> f x" by (metis imageI)
    then have "filter (\<lambda>y. f y = f x) xs = []" by (simp add: filter_empty_conv)
    with True show ?thesis by simp
  next
    case False
    with Cons show ?thesis by auto
  qed
qed

lemma parse_loop_set:
  "set (parse_loop td md5 raw) = {ev. \<exists>e\<in>set raw. parse_event td md5 e = Some ev}"
  by (induction raw) (auto split: option.splits)

lemma parse_event_id:
  "parse_event td md5 e = Some ev \<Longrightarrow> evento_id ev = generate_event_id md5 e"
  by (auto simp: parse_event_def Let_def split: option.splits)


lemma parse_event_Some_iff:
  "(\<exists>ev. parse_event td md5 e = Some ev) \<longleftrightarrow>
     parse_event_date td (dict_get e ''fecha_inicio'' []) \<noteq> None"
  by (auto simp: parse_event_def Let_def split: option.splits)

lemma generate_event_id_cong:
  assumes "dict_get e1 ''nombre'' (dict_get e1 ''rival'' ''desconocido'')
             = dict_get e2 ''nombre'' (dict_get e2 ''rival'' ''desconocido'')"
    and "dict_get e1 ''fecha_inicio'' [] = dict_get e2 ''fecha_inicio'' []"
    and "dict_get e1 ''fuente'' [] = dict_get e2 ''fuente'' []"
  shows "generate_event_id md5 e1 = generate_event_id md5 e2"
  using assms by (simp add: generate_event_id_def)


text \<open>
  Claim C6. The identifier is a function of the record, and it reads only three things of
  it: the name (\<^verbatim>\<open>nombre\<close>, else \<^verbatim>\<open>rival\<close>, else a default), the start-date string as
  provided and the source tag. Two records that agree on these three get the same
  identifier, whatever their other fields are; in particular the same record gets the
  same identifier in every run.
\<close>

theorem event_id_depends_on_name_start_source:
  assumes "dict_get e1 ''nombre'' (dict_get e1 ''rival'' ''desconocido'')
             = dict_get e2 ''nombre'' (dict_get e2 ''rival'' ''desconocido'')"
    and "dict_get e1 ''fecha_inicio'' [] = dict_get e2 ''fecha_inicio'' []"
    and "dict_get e1 ''fuente'' [] = dict_get e2 ''fuente'' []"
  shows "generate_event_id md5 e1 = generate_event_id md5 e2"
  using assms by (rule generate_event_id_cong)

theorem event_id_depends_on_name_start_source_witness:
  "generate_event_id rev festival = generate_event_id rev (festival(''fecha_fin'' \<mapsto> ''2026-03-09'', ''tipo'' \<mapsto> ''puntual''))
   \<and> generate_event_id rev festival = ''inum|10-30-6''"
proof -
  let ?e2 = "festival(''fecha_fin'' \<mapsto> ''2026-03-09'', ''tipo'' \<mapsto> ''puntual'')"
  have a: "dict_get festival ''nombre'' (dict_get festival ''rival'' ''desconocido'')
             = dict_get ?e2 ''nombre'' (dict_get ?e2 ''rival'' ''desconocido'')"
    by (simp add: dict_get_def festival_def)
  have b: "dict_get festival ''fecha_inicio'' [] = dict_get ?e2 ''fecha_inicio'' []"
    by (simp add: dict_get_def festival_def)
  have c: "dict_get festival ''fuente'' [] = dict_get ?e2 ''fuente'' []"
    by (simp add: dict_get_def festival_def)
  have "generate_event_id rev festival = ''inum|10-30-6''"
    by (simp add: generate_event_id_def dict_get_def festival_def)
  with event_id_depends_on_name_start_source [OF a b c, of rev] show ?thesis by simp
qed

text \<open>
  Claim C5. After the deduplication pass every \<^verbatim>\<open>evento_id\<close> occurs at most once, and for
  each identifier the event kept is the first one that parsing produced with it. A list
  that holds the same logical event twice (same name, start-date string and source), the
  start date being one the parser accepts so that the record is an event at all, yields
  exactly one event with that identifier.
\<close>

theorem dedup_keeps_first_occurrence:
  "distinct (map evento_id (parse_and_deduplicate_events td md5 raw))
   \<and> (\<forall>i. find (\<lambda>e. evento_id e = i) (parse_and_deduplicate_events td md5 raw)
            = find (\<lambda>e. evento_id e = i) (parse_loop td md5 raw))
   \<and> (\<forall>e1 e2 xs ys zs.
         raw = xs @ e1 # ys @ e2 # zs
         \<and> dict_get e1 ''nombre'' (dict_get e1 ''rival'' ''desconocido'')
             = dict_get e2 ''nombre'' (dict_get e2 ''rival'' ''desconocido'')
         \<and> dict_get e1 ''fecha_inicio'' [] = dict_get e2 ''fecha_inicio'' []
         \<and> dict_get e1 ''fuente'' [] = dict_get e2 ''fuente'' []
         \<and> parse_event_date td (dict_get e1 ''fecha_inicio'' []) \<noteq> None
         \<longrightarrow> generate_event_id md5 e2 = generate_event_id md5 e1
             \<and> length (filter (\<lambda>ev. evento_id ev = generate_event_id md5 e1)
                         (parse_and_deduplicate_events td md5 raw)) = 1)"
proof (intro conjI allI impI)
  show "distinct (map evento_id (parse_and_deduplicate_events td md5 raw))"
    by (simp add: parse_and_deduplicate_events_def dedup_loop_distinct)
next
  fix i
  show "find (\<lambda>e. evento_id e = i) (parse_and_deduplicate_events td md5 raw)
          = find (\<lambda>e. evento_id e = i) (parse_loop td md5 raw)"
    by (simp add: parse_and_deduplicate_events_def dedup_loop_find)
next
  fix e1 e2 xs ys zs
  assume h: "raw = xs @ e1 # ys @ e2 # zs
         \<and> dict_get e1 ''nombre'' (dict_get e1 ''rival'' ''desconocido'')
             = dict_get e2 ''nombre'' (dict_get e2 ''rival'' ''desconocido'')
         \<and> dict_get e1 ''fecha_inicio'' [] = dict_get e2 ''fecha_inicio'' []
         \<and> dict_get e1 ''fuente'' [] = dict_get e2 ''fuente'' []
         \<and> parse_event_date td (dict_get e1 ''fecha_inicio'' []) \<noteq> None"
  then show "generate_event_id md5 e2 = generate_event_id md5 e1"
    by (intro generate_event_id_cong) simp_all
  let ?out = "parse_and_deduplicate_events td md5 raw"
  from h obtain ev where ev: "parse_event td md5 e1 = Some ev"
    using parse_event_Some_iff by blast
  from h have "e1 \<in> set raw" by simp
  with ev have "ev \<in> set (parse_loop td md5 raw)"
    by (auto simp: parse_loop_set)
  then have "evento_id ev \<in> evento_id ` set ?out"
    by (simp add: parse_and_deduplicate_events_def dedup_loop_ids)
  then obtain ev' where ev': "ev' \<in> set ?out" "evento_id ev' = evento_id ev"
    by (metis imageE)
  have "distinct (map evento_id ?out)"
    by (simp add: parse_and_deduplicate_events_def dedup_loop_distinct)
  from distinct_count_one [OF this ev'(1)] ev'(2) parse_event_id [OF ev]
  show "length (filter (\<lambda>ev. evento_id ev = generate_event_id md5 e1) ?out) = 1"
    by simp
qed

lemma parse_festival:
  "parse_event demo_to_datetime rev festival =
     Some \<lparr>evento_id = ''inum|10-30-6'', nombre = ''Local Festival'',
       tipo_evento = ''desconocido'', impacto_esperado = ''desconocido'',
       fuente_evento = ''muni'', fecha_inicio = 1772323200, fecha_fin = 1772496000\<rparr>"
  by (simp add: parse_event_def parse_event_date_def strip_def is_space_def festival_def
      dict_get_def demo_to_datetime_def generate_event_id_def Let_def)

theorem dedup_keeps_first_occurrence_witness:
  "parse_event_date demo_to_datetime (dict_get festival ''fecha_inicio'' []) \<noteq> None
   \<and> length (filter (\<lambda>ev. evento_id ev = generate_event_id rev festival)
               (parse_and_deduplicate_events demo_to_datetime rev [festival, festival])) = 1
   \<and> parse_and_deduplicate_events demo_to_datetime rev [festival, festival] =
       [\<lparr>evento_id = ''inum|10-30-6'', nombre = ''Local Festival'',
         tipo_evento = ''desconocido'', impacto_esperado = ''desconocido'',
         fuente_evento = ''muni'', fecha_inicio = 1772323200, fecha_fin = 1772496000\<rparr>]"
proof -
  have p: "parse_event_date demo_to_datetime (dict_get festival ''fecha_inicio'' []) \<noteq> None"
    by (simp add: parse_event_date_def strip_def is_space_def festival_def dict_get_def
        demo_to_datetime_def)
  have "[festival, festival] = [] @ festival # [] @ festival # []" by simp
  with p dedup_keeps_first_occurrence [of demo_to_datetime rev "[festival, festival]"]
  have "length (filter (\<lambda>ev. evento_id ev = generate_event_id rev festival)
               (parse_and_deduplicate_events demo_to_datetime rev [festival, festival])) = 1"
    by blast
  moreover have "parse_and_deduplicate_events demo_to_datetime rev [festival, festival] =
       [\<lparr>evento_id = ''inum|10-30-6'', nombre = ''Local Festival'',
         tipo_evento = ''desconocido'', impacto_esperado = ''desconocido'',
         fuente_evento = ''muni'', fecha_inicio = 1772323200, fecha_fin = 1772496000\<rparr>]"
    by (simp add: parse_and_deduplicate_events_def parse_festival)
  ultimately show ?thesis using p by simp
qed



subsection \<open>Baseline selector\<close>

lemma date_range_set:
  "set (date_range s e) = {t. \<exists>k. 0 \<le> k \<and> k \<le> (e - s) div 86400 \<and> t = s + 86400 * k}"
  by (auto simp: date_range_def)







lemma select_mask_map:
  "select_mask df (map (\<lambda>r. P (f r)) df) = filter (\<lambda>r. P (f r)) df"
  by (induction df) (simp_all add: select_mask_def)





lemma meteo_diaria_of_distinct: "distinct (map md_fecha (meteo_diaria_of df))"
  by (simp add: meteo_diaria_of_def Let_def comp_def)







subsection \<open>Daily aggregator\<close>

lemma valid_values_map:
  "valid_values (map g xs) = map (\<lambda>r. the (g r)) (filter (\<lambda>r. g r \<noteq> None) xs)"
  by (simp add: valid_values_def filter_map comp_def)

lemma contam_diaria_of_keys:
  "map (\<lambda>x. (cd_fecha x, cd_variable x)) (contam_diaria_of df) =
     sort (remdups (map (\<lambda>r. (date_of (fecha_utc r), variable r))
                        (filter (\<lambda>r. calidad_dato r = ''ok'') df)))"
  by (simp add: contam_diaria_of_def Let_def comp_def case_prod_beta)

lemma contam_diaria_of_row:
  assumes "x \<in> set (contam_diaria_of df)"
  shows "valor_medio x = pd_mean (map valor (filter (\<lambda>r. calidad_dato r = ''ok''
            \<and> date_of (fecha_utc r) = cd_fecha x \<and> variable r = cd_variable x) df))
       \<and> n_registros x = pd_count (map valor (filter (\<lambda>r. calidad_dato r = ''ok''
            \<and> date_of (fecha_utc r) = cd_fecha x \<and> variable r = cd_variable x) df))
       \<and> (\<exists>r\<in>set df. calidad_dato r = ''ok'' \<and> date_of (fecha_utc r) = cd_fecha x
             \<and> variable r = cd_variable x)"
  using assms
  by (auto simp: contam_diaria_of_def Let_def conj_commute conj_left_commute)

lemma contam_diaria_of_distinct:
  "distinct (map (\<lambda>x. (cd_fecha x, cd_variable x)) (contam_diaria_of df))"
  by (simp add: contam_diaria_of_keys)

lemma contam_diaria_of_key_iff:
  "(\<exists>x\<in>set (contam_diaria_of df). cd_fecha x = f \<and> cd_variable x = v) \<longleftrightarrow>
   (\<exists>r\<in>set df. calidad_dato r = ''ok'' \<and> date_of (fecha_utc r) = f \<and> variable r = v)"
proof -
  have "(\<exists>x\<in>set (contam_diaria_of df). cd_fecha x = f \<and> cd_variable x = v) \<longleftrightarrow>
        (f, v) \<in> set (map (\<lambda>x. (cd_fecha x, cd_variable x)) (contam_diaria_of df))"
    by (auto simp: image_iff)
  also have "\<dots> \<longleftrightarrow> (\<exists>r\<in>set df. calidad_dato r = ''ok'' \<and> date_of (fecha_utc r) = f \<and> variable r = v)"
    unfolding contam_diaria_of_keys by (auto simp: image_iff)
  finally show ?thesis .
qed

lemma contam_diaria_of_values:
  assumes "x \<in> set (contam_diaria_of df)"
  shows "n_registros x = length (lecturas_validas df (cd_fecha x) (cd_variable x))"
    and "valor_medio x =
      (if lecturas_validas df (cd_fecha x) (cd_variable x) = [] then None
       else Some (sum_list (lecturas_validas df (cd_fecha x) (cd_variable x))
                  / real (length (lecturas_validas df (cd_fecha x) (cd_variable x)))))"
proof -
  let ?g = "filter (\<lambda>r. calidad_dato r = ''ok''
            \<and> date_of (fecha_utc r) = cd_fecha x \<and> variable r = cd_variable x) df"
  have v: "valid_values (map valor ?g) = lecturas_validas df (cd_fecha x) (cd_variable x)"
    by (simp add: valid_values_map lecturas_validas_def conj_ac)
  from contam_diaria_of_row [OF assms] v
  show "n_registros x = length (lecturas_validas df (cd_fecha x) (cd_variable x))"
    by (simp add: pd_count_def)
  from contam_diaria_of_row [OF assms] v
  show "valor_medio x =
      (if lecturas_validas df (cd_fecha x) (cd_variable x) = [] then None
       else Some (sum_list (lecturas_validas df (cd_fecha x) (cd_variable x))
                  / real (length (lecturas_validas df (cd_fecha x) (cd_variable x)))))"
    by (simp add: pd_mean_def Let_def)
qed

lemma contam_diaria_of_nonempty:
  assumes "x \<in> set (contam_diaria_of df)"
    and "\<forall>r\<in>set df. calidad_dato r = ''ok'' \<longrightarrow> valor r \<noteq> None"
  shows "lecturas_validas df (cd_fecha x) (cd_variable x) \<noteq> []"
proof -
  from contam_diaria_of_row [OF assms(1)] obtain r where
    "r \<in> set df" "calidad_dato r = ''ok''" "date_of (fecha_utc r) = cd_fecha x"
    "variable r = cd_variable x" by blast
  with assms(2) show ?thesis
    by (auto simp: lecturas_validas_def filter_empty_conv)
qed

lemma trafico_diario_of_keys:
  "map td_fecha (trafico_diario_of df) = sort (remdups (map (\<lambda>r. date_of (t_fecha r)) df))"
  by (simp add: trafico_diario_of_def Let_def comp_def)

lemma trafico_diario_of_row:
  assumes "x \<in> set (trafico_diario_of df)"
  shows "n_incidencias x = length (filter (\<lambda>r. date_of (t_fecha r) = td_fecha x) df)
         \<and> 0 < n_incidencias x"
  using assms
  by (auto simp: trafico_diario_of_def Let_def filter_empty_conv)

lemma trafico_diario_of_key_iff:
  "(\<exists>x\<in>set (trafico_diario_of df). td_fecha x = f) \<longleftrightarrow> (\<exists>r\<in>set df. date_of (t_fecha r) = f)"
proof -
  have "(\<exists>x\<in>set (trafico_diario_of df). td_fecha x = f) \<longleftrightarrow>
        f \<in> set (map td_fecha (trafico_diario_of df))"
    by (auto simp: image_iff)
  also have "\<dots> \<longleftrightarrow> (\<exists>r\<in>set df. date_of (t_fecha r) = f)"
    unfolding trafico_diario_of_keys by (auto simp: image_iff)
  finally show ?thesis .
qed


lemma meteo_diaria_of_keys:
  "map md_fecha (meteo_diaria_of df) = sort (remdups (map (\<lambda>r. date_of (m_fecha r)) df))"
  by (simp add: meteo_diaria_of_def Let_def comp_def)

lemma meteo_diaria_of_row:
  assumes "x \<in> set (meteo_diaria_of df)"
  shows "precip_media x = media_aritmetica (lecturas_meteo precipitacion_mm df (md_fecha x))
       \<and> temp_media x = media_aritmetica (lecturas_meteo temp_c df (md_fecha x))"
  using assms
  by (auto simp: meteo_diaria_of_def Let_def pd_mean_def valid_values_map lecturas_meteo_def
      media_aritmetica_def)

lemma meteo_diaria_of_key_iff:
  "(\<exists>x\<in>set (meteo_diaria_of df). md_fecha x = f) \<longleftrightarrow> (\<exists>r\<in>set df. date_of (m_fecha r) = f)"
proof -
  have "(\<exists>x\<in>set (meteo_diaria_of df). md_fecha x = f) \<longleftrightarrow>
        f \<in> set (map md_fecha (meteo_diaria_of df))"
    by (auto simp: image_iff)
  also have "\<dots> \<longleftrightarrow> (\<exists>r\<in>set df. date_of (m_fecha r) = f)"
    unfolding meteo_diaria_of_keys by (auto simp: image_iff)
  finally show ?thesis .
qed

text \<open>
  Claim C3. The daily aggregation groups the records by the date of their timestamp, and
  the pollution records also by variable: each (day, variable) has at most one row, and it
  has one exactly when some record flagged \<^verbatim>\<open>ok\<close> falls on that day with that variable.
  The value of a row is the arithmetic mean of the valid readings of its day and variable
  (flagged \<^verbatim>\<open>ok\<close> and carrying a number) and its sample count is their number. The
  normalized pollution table flags every row without a value as \<^verbatim>\<open>missing\<close>
  (\<open>validar_rangos_ok_has_valor\<close>); on such a table every row has a positive count and a
  defined mean, so a day without valid records has no row and is never shown as zero.
  The weather rows hold the means of the numbers of each column, and a traffic row holds
  the number of records of its day, which is positive: a day without records has no row.
\<close>

theorem daily_aggregation_correct:
  "distinct (map (\<lambda>x. (cd_fecha x, cd_variable x)) (contam_diaria_of df_contam))
   \<and> (\<forall>f v. (\<exists>x\<in>set (contam_diaria_of df_contam). cd_fecha x = f \<and> cd_variable x = v) \<longleftrightarrow>
            (\<exists>r\<in>set df_contam. calidad_dato r = ''ok'' \<and> date_of (fecha_utc r) = f
                \<and> variable r = v))
   \<and> (\<forall>x\<in>set (contam_diaria_of df_contam).
         valor_medio x = media_aritmetica (lecturas_validas df_contam (cd_fecha x) (cd_variable x))
         \<and> n_registros x = length (lecturas_validas df_contam (cd_fecha x) (cd_variable x)))
   \<and> ((\<forall>r\<in>set df_contam. calidad_dato r = ''ok'' \<longrightarrow> valor r \<noteq> None) \<longrightarrow>
        (\<forall>x\<in>set (contam_diaria_of df_contam). 0 < n_registros x \<and> valor_medio x \<noteq> None))
   \<and> distinct (map md_fecha (meteo_diaria_of df_meteo))
   \<and> (\<forall>f. (\<exists>x\<in>set (meteo_diaria_of df_meteo). md_fecha x = f) \<longleftrightarrow>
          (\<exists>r\<in>set df_meteo. date_of (m_fecha r) = f))
   \<and> (\<forall>x\<in>set (meteo_diaria_of df_meteo).
         precip_media x = media_aritmetica (lecturas_meteo precipitacion_mm df_meteo (md_fecha x))
         \<and> temp_media x = media_aritmetica (lecturas_meteo temp_c df_meteo (md_fecha x)))
   \<and> distinct (map td_fecha (trafico_diario_of df_trafico))
   \<and> (\<forall>f. (\<exists>x\<in>set (trafico_diario_of df_trafico). td_fecha x = f) \<longleftrightarrow>
          (\<exists>r\<in>set df_trafico. date_of (t_fecha r) = f))
   \<and> (\<forall>x\<in>set (trafico_diario_of df_trafico).
         n_incidencias x = length (filter (\<lambda>r. date_of (t_fecha r) = td_fecha x) df_trafico)
         \<and> 0 < n_incidencias x)"
proof (intro conjI allI ballI impI)
  show "distinct (map (\<lambda>x. (cd_fecha x, cd_variable x)) (contam_diaria_of df_contam))"
    by (rule contam_diaria_of_distinct)
  show "distinct (map md_fecha (meteo_diaria_of df_meteo))"
    by (simp add: meteo_diaria_of_keys)
  show "distinct (map td_fecha (trafico_diario_of df_trafico))"
    by (simp add: trafico_diario_of_keys)
next
  fix f v
  show "(\<exists>x\<in>set (contam_diaria_of df_contam). cd_fecha x = f \<and> cd_variable x = v) \<longleftrightarrow>
        (\<exists>r\<in>set df_contam. calidad_dato r = ''ok'' \<and> date_of (fecha_utc r) = f \<and> variable r = v)"
    by (rule contam_diaria_of_key_iff)
next
  fix f
  show "(\<exists>x\<in>set (meteo_diaria_of df_meteo). md_fecha x = f) \<longleftrightarrow>
        (\<exists>r\<in>set df_meteo. date_of (m_fecha r) = f)"
    by (rule meteo_diaria_of_key_iff)
  show "(\<exists>x\<in>set (trafico_diario_of df_trafico). td_fecha x = f) \<longleftrightarrow>
        (\<exists>r\<in>set df_trafico. date_of (t_fecha r) = f)"
    by (rule trafico_diario_of_key_iff)
next
  fix x assume x: "x \<in> set (contam_diaria_of df_contam)"
  show "valor_medio x = media_aritmetica (lecturas_validas df_contam (cd_fecha x) (cd_variable x))"
    using contam_diaria_of_values(2) [OF x] by (simp add: media_aritmetica_def)
  show "n_registros x = length (lecturas_validas df_contam (cd_fecha x) (cd_variable x))"
    by (rule contam_diaria_of_values(1) [OF x])
next
  fix x
  assume wf: "\<forall>r\<in>set df_contam. calidad_dato r = ''ok'' \<longrightarrow> valor r \<noteq> None"
    and x: "x \<in> set (contam_diaria_of df_contam)"
  from contam_diaria_of_nonempty [OF x wf] contam_diaria_of_values(1) [OF x]
  show "0 < n_registros x" by simp
  from contam_diaria_of_nonempty [OF x wf] contam_diaria_of_values(2) [OF x]
  show "valor_medio x \<noteq> None" by simp
next
  fix x assume x: "x \<in> set (meteo_diaria_of df_meteo)"
  from meteo_diaria_of_row [OF x]
  show "precip_media x = media_aritmetica (lecturas_meteo precipitacion_mm df_meteo (md_fecha x))"
    and "temp_media x = media_aritmetica (lecturas_meteo temp_c df_meteo (md_fecha x))"
    by simp_all
next
  fix x assume x: "x \<in> set (trafico_diario_of df_trafico)"
  from trafico_diario_of_row [OF x]
  show "n_incidencias x = length (filter (\<lambda>r. date_of (t_fecha r) = td_fecha x) df_trafico)"
    and "0 < n_incidencias x"
    by blast+
qed

lemma contam_diaria_demo:
  "contam_diaria_of contam_regs_demo =
     [\<lparr> cd_fecha = 20513, cd_variable = ''NO2'', valor_medio = Some 20, n_registros = 3 \<rparr>]"
  by code_simp

theorem daily_aggregation_correct_witness:
  "contam_diaria_of contam_regs_demo =
     [\<lparr> cd_fecha = 20513, cd_variable = ''NO2'', valor_medio = Some 20, n_registros = 3 \<rparr>]
   \<and> 0 < n_registros (hd (contam_diaria_of contam_regs_demo))
   \<and> valor_medio (hd (contam_diaria_of contam_regs_demo)) \<noteq> None
   \<and> \<not> (\<exists>x\<in>set (contam_diaria_of contam_regs_demo). cd_fecha x = 20514 \<and> cd_variable x = ''NO2'')"
proof -
  have wf: "\<forall>r\<in>set contam_regs_demo. calidad_dato r = ''ok'' \<longrightarrow> valor r \<noteq> None"
    by (simp add: contam_regs_demo_def)
  have no: "\<not> (\<exists>r\<in>set contam_regs_demo. calidad_dato r = ''ok''
               \<and> date_of (fecha_utc r) = 20514 \<and> variable r = ''NO2'')"
    by (simp add: contam_regs_demo_def date_of_def)
  have m: "hd (contam_diaria_of contam_regs_demo) \<in> set (contam_diaria_of contam_regs_demo)"
    by (simp add: contam_diaria_demo)
  note t = daily_aggregation_correct [of contam_regs_demo "[]" "[]"]
  from t wf m have "0 < n_registros (hd (contam_diaria_of contam_regs_demo))
      \<and> valor_medio (hd (contam_diaria_of contam_regs_demo)) \<noteq> None"
    by blast
  moreover from t no
  have "\<not> (\<exists>x\<in>set (contam_diaria_of contam_regs_demo). cd_fecha x = 20514 \<and> cd_variable x = ''NO2'')"
    by blast
  ultimately show ?thesis using contam_diaria_demo by blast
qed

lemma validar_rangos_ok_has_valor:
  "\<forall>r\<in>set (validar_rangos RANGOS_FISICOS df). calidad_dato r = ''ok'' \<longrightarrow> valor r \<noteq> None"
  by (auto simp: validar_rangos_def split: option.splits if_splits)

subsection \<open>Impact calculator\<close>

lemma filas_variables_rows:
  "r \<in> set (filas_variables ev aed md ctx it contam vars) \<Longrightarrow>
     \<exists>var\<in>set vars. filter (\<lambda>x. cd_variable x = var) contam \<noteq> []
        \<and> r = fila_variable ev aed md ctx it (filter (\<lambda>x. cd_variable x = var) contam) var"
  by (induction vars) (auto simp: Let_def split: if_splits)

lemma filas_variables_full:
  "set vars \<subseteq> cd_variable ` set contam \<Longrightarrow>
     filas_variables ev aed md ctx it contam vars =
       map (\<lambda>var. fila_variable ev aed md ctx it (filter (\<lambda>x. cd_variable x = var) contam) var) vars"
  by (induction vars) (auto simp: Let_def filter_empty_conv)

lemma variables_contam_of_subset:
  "set (variables_contam_of (Some c)) \<subseteq> cd_variable ` set c"
  by (auto simp: variables_contam_of_def)

lemma variables_contam_of_empty_iff:
  "variables_contam_of c = [] \<longleftrightarrow> c = None \<or> c = Some []"
proof (cases c)
  case None
  then show ?thesis by (simp add: variables_contam_of_def)
next
  case (Some a)
  have "set (sort (remdups (map cd_variable a))) = cd_variable ` set a" by simp
  then have "sort (remdups (map cd_variable a)) = [] \<longleftrightarrow> a = []"
    by (metis empty_set image_is_empty set_empty)
  with Some show ?thesis by (simp add: variables_contam_of_def)
qed

lemma filas_evento_con_datos:
  assumes "c \<noteq> []"
  shows "filas_evento ev aed (Some c) t m =
     map (\<lambda>var. fila_variable ev aed m (meteo_contexto ev aed m) (calc_impacto_trafico ev aed t m)
                  (filter (\<lambda>x. cd_variable x = var) c) var)
         (variables_contam_of (Some c))"
proof -
  from assms have "variables_contam_of (Some c) \<noteq> []"
    by (simp add: variables_contam_of_empty_iff)
  then show ?thesis
    by (simp add: filas_evento_def Let_def filas_variables_full [OF variables_contam_of_subset])
qed

lemma filas_evento_sin_datos:
  assumes "c = None \<or> c = Some []"
  shows "filas_evento ev aed c t m =
     [fila_sin_datos ev (meteo_contexto ev aed m) (calc_impacto_trafico ev aed t m)]"
  using assms by (simp add: filas_evento_def Let_def variables_contam_of_empty_iff)

lemma fila_variable_fields:
  "row_evento_id (fila_variable ev aed m ctx it df_var var) = evento_id ev"
  "row_variable (fila_variable ev aed m ctx it df_var var) = var"
  "impacto_trafico_pct (fila_variable ev aed m ctx it df_var var) = round_or_nan it 2"
  "media_evento (fila_variable ev aed m ctx it df_var var) =
     round_or_nan (media_de (datos_ev_of ev df_var)) 2"
  "media_baseline (fila_variable ev aed m ctx it df_var var) =
     round_or_nan (media_de (datos_bl_of ev aed m df_var)) 2"
  "impacto_pct (fila_variable ev aed m ctx it df_var var) =
     round_or_nan (calc_impacto (media_de (datos_ev_of ev df_var))
                                (media_de (datos_bl_of ev aed m df_var))) 2"
  "n_dias_evento (fila_variable ev aed m ctx it df_var var) = n_dias_de (datos_ev_of ev df_var)"
  "n_dias_baseline (fila_variable ev aed m ctx it df_var var) =
     n_dias_de (datos_bl_of ev aed m df_var)"
  by (simp_all add: fila_variable_def Let_def case_prod_beta)

lemma fila_sin_datos_fields:
  "row_evento_id (fila_sin_datos ev ctx it) = evento_id ev"
  "row_variable (fila_sin_datos ev ctx it) = ''sin_datos''"
  "impacto_trafico_pct (fila_sin_datos ev ctx it) = round_or_nan it 2"
  "media_evento (fila_sin_datos ev ctx it) = None"
  "media_baseline (fila_sin_datos ev ctx it) = None"
  "impacto_pct (fila_sin_datos ev ctx it) = None"
  "n_dias_evento (fila_sin_datos ev ctx it) = card (event_dates ev)"
  "n_dias_baseline (fila_sin_datos ev ctx it) = 0"
  "media_temp_evento (fila_sin_datos ev ctx it) = round_or_nan (fst ctx) 1"
  "media_precip_evento (fila_sin_datos ev ctx it) = round_or_nan (fst (snd ctx)) 2"
  "media_temp_baseline (fila_sin_datos ev ctx it) = round_or_nan (fst (snd (snd ctx))) 1"
  "media_precip_baseline (fila_sin_datos ev ctx it) = round_or_nan (snd (snd (snd ctx))) 2"
  by (simp_all add: fila_sin_datos_def Let_def case_prod_beta)

lemma filas_evento_nonempty: "filas_evento ev aed c t m \<noteq> []"
proof (cases "c = None \<or> c = Some []")
  case True
  then show ?thesis by (simp add: filas_evento_sin_datos)
next
  case False
  then obtain c' where c: "c = Some c'" "c' \<noteq> []" by (cases c) auto
  then have "variables_contam_of (Some c') \<noteq> []"
    by (simp add: variables_contam_of_empty_iff)
  with c show ?thesis by (simp add: filas_evento_con_datos)
qed

lemma filas_evento_id:
  "r \<in> set (filas_evento ev aed c t m) \<Longrightarrow>
     row_evento_id r = evento_id ev
     \<and> impacto_trafico_pct r = round_or_nan (calc_impacto_trafico ev aed t m) 2"
proof (cases "c = None \<or> c = Some []")
  case True
  assume "r \<in> set (filas_evento ev aed c t m)"
  with True show ?thesis by (auto simp: filas_evento_sin_datos fila_sin_datos_fields)
next
  case False
  assume r: "r \<in> set (filas_evento ev aed c t m)"
  from False obtain c' where c: "c = Some c'" "c' \<noteq> []" by (cases c) auto
  with r show ?thesis by (auto simp: filas_evento_con_datos fila_variable_fields)
qed

lemma compute_event_impact_concat:
  "compute_event_impact events c t m =
     concat (map (\<lambda>ev. filas_evento ev (get_all_event_dates events) c t m) events)"
  by (simp add: compute_event_impact_def Let_def)

lemma compute_event_impact_rows:
  "r \<in> set (compute_event_impact events c t m) \<longleftrightarrow>
     (\<exists>ev\<in>set events. r \<in> set (filas_evento ev (get_all_event_dates events) c t m))"
  by (auto simp: compute_event_impact_concat)


lemma media_de_Some_nonempty: "media_de datos = Some x \<Longrightarrow> datos \<noteq> []"
  by (auto simp: media_de_def)

lemma n_dias_de_pos: "datos \<noteq> [] \<Longrightarrow> 0 < n_dias_de datos"
  by (cases datos) (auto simp: n_dias_de_def)

lemma calc_impacto_Some:
  "calc_impacto me mb = Some x \<longleftrightarrow> (\<exists>e b. me = Some e \<and> mb = Some b \<and> 0 < b \<and> x = (e - b) / b * 100)"
  by (auto simp: calc_impacto_def split: option.splits)





text \<open>
  Claim C10. In every output row whose impact percentage is defined, both day counts are
  at least one.
\<close>

theorem defined_impact_has_days:
  "\<forall>r\<in>set (compute_event_impact events c t m).
     impacto_pct r \<noteq> None \<longrightarrow> 1 \<le> n_dias_evento r \<and> 1 \<le> n_dias_baseline r"
proof (intro ballI impI)
  fix r
  assume r: "r \<in> set (compute_event_impact events c t m)" and def: "impacto_pct r \<noteq> None"
  let ?aed = "get_all_event_dates events"
  from r obtain ev where ev: "r \<in> set (filas_evento ev ?aed c t m)"
    by (auto simp: compute_event_impact_rows)
  show "1 \<le> n_dias_evento r \<and> 1 \<le> n_dias_baseline r"
  proof (cases "c = None \<or> c = Some []")
    case True
    with ev def show ?thesis by (auto simp: filas_evento_sin_datos fila_sin_datos_fields)
  next
    case False
    then obtain cd where c: "c = Some cd" "cd \<noteq> []" by (cases c) auto
    with ev obtain var where
      row: "r = fila_variable ev ?aed m (meteo_contexto ev ?aed m) (calc_impacto_trafico ev ?aed t m)
                  (filter (\<lambda>x. cd_variable x = var) cd) var"
      by (auto simp: filas_evento_con_datos)
    let ?df = "filter (\<lambda>x. cd_variable x = var) cd"
    from def row obtain x where
      "calc_impacto (media_de (datos_ev_of ev ?df)) (media_de (datos_bl_of ev ?aed m ?df)) = Some x"
      by (auto simp: fila_variable_fields round_or_nan_def)
    then obtain e b where "media_de (datos_ev_of ev ?df) = Some e"
      "media_de (datos_bl_of ev ?aed m ?df) = Some b"
      by (auto simp: calc_impacto_Some)
    then have "datos_ev_of ev ?df \<noteq> []" "datos_bl_of ev ?aed m ?df \<noteq> []"
      by (auto dest: media_de_Some_nonempty)
    then have "0 < n_dias_de (datos_ev_of ev ?df)" "0 < n_dias_de (datos_bl_of ev ?aed m ?df)"
      by (auto intro: n_dias_de_pos)
    then show ?thesis
      by (simp add: row fila_variable_fields Suc_le_eq)
  qed
qed

text \<open>
  Claim C4. Every event given to the impact calculator, so every event that survives
  parsing and deduplication, has at least one row in the table it returns. When no
  pollution table is available (none, or an empty one) the table has exactly one row per
  event, in the order of the events: its variable is \<^verbatim>\<open>sin_datos\<close>, its two means and its
  impact percentage are undefined, and it carries the traffic impact and the weather
  context of the event.
\<close>

theorem every_event_has_a_row:
  "(\<forall>ev\<in>set events. \<exists>r\<in>set (compute_event_impact events c t m). row_evento_id r = evento_id ev)
   \<and> (c = None \<or> c = Some [] \<longrightarrow>
        compute_event_impact events c t m =
          map (\<lambda>ev. fila_sin_datos ev (meteo_contexto ev (get_all_event_dates events) m)
                       (calc_impacto_trafico ev (get_all_event_dates events) t m)) events
        \<and> map row_evento_id (compute_event_impact events c t m) = map evento_id events
        \<and> (\<forall>r\<in>set (compute_event_impact events c t m).
              row_variable r = ''sin_datos'' \<and> media_evento r = None \<and> media_baseline r = None
              \<and> impacto_pct r = None))"
proof (intro conjI ballI impI)
  fix ev assume ev: "ev \<in> set events"
  let ?aed = "get_all_event_dates events"
  from filas_evento_nonempty [of ev ?aed c t m]
  obtain r where r: "r \<in> set (filas_evento ev ?aed c t m)"
    by (cases "filas_evento ev ?aed c t m") auto
  with ev have "r \<in> set (compute_event_impact events c t m)"
    by (auto simp: compute_event_impact_rows)
  with filas_evento_id [OF r]
  show "\<exists>r\<in>set (compute_event_impact events c t m). row_evento_id r = evento_id ev"
    by blast
next
  assume c: "c = None \<or> c = Some []"
  then show m: "compute_event_impact events c t m =
          map (\<lambda>ev. fila_sin_datos ev (meteo_contexto ev (get_all_event_dates events) m)
                       (calc_impacto_trafico ev (get_all_event_dates events) t m)) events"
    by (simp add: compute_event_impact_concat filas_evento_sin_datos [OF c] concat_map_singleton)
  show "map row_evento_id (compute_event_impact events c t m) = map evento_id events"
    unfolding m by (simp add: comp_def fila_sin_datos_fields)
  fix r assume "r \<in> set (compute_event_impact events c t m)"
  then show "row_variable r = ''sin_datos''" "media_evento r = None" "media_baseline r = None"
    "impacto_pct r = None"
    unfolding m by (auto simp: fila_sin_datos_fields)
qed






lemma rows_demo2:
  "compute_event_impact [ev_sabado] (Some contam_demo2) (Some trafico_demo) (Some meteo_demo) =
     [\<lparr>row_evento_id = ''e1'', nombre_evento = ''Partido'',
        row_tipo_evento = ''puntual'', row_impacto_esperado = ''alto'',
        row_fecha_inicio = 20519, row_fecha_fin = 20519,
        row_variable = ''NO2'', media_evento = Some 50, media_baseline = Some 25,
        impacto_pct = Some 100, n_dias_evento = 1,
        n_dias_baseline = 1, media_temp_evento = None,
        media_temp_baseline = Some 15, media_precip_evento = None,
        media_precip_baseline = Some 0, impacto_trafico_pct = Some 50\<rparr>,
      \<lparr>row_evento_id = ''e1'', nombre_evento = ''Partido'',
        row_tipo_evento = ''puntual'', row_impacto_esperado = ''alto'',
        row_fecha_inicio = 20519, row_fecha_fin = 20519,
        row_variable = ''PM10'', media_evento = Some 30, media_baseline = Some 0,
        impacto_pct = None, n_dias_evento = 1,
        n_dias_baseline = 1, media_temp_evento = None,
        media_temp_baseline = Some 15, media_precip_evento = None,
        media_precip_baseline = Some 0, impacto_trafico_pct = Some 50\<rparr>]"
  by code_simp

lemma rows_sin_datos_demo:
  "compute_event_impact [ev_sabado] None (Some trafico_demo) (Some meteo_demo) =
     [\<lparr>row_evento_id = ''e1'', nombre_evento = ''Partido'',
        row_tipo_evento = ''puntual'', row_impacto_esperado = ''alto'',
        row_fecha_inicio = 20519, row_fecha_fin = 20519,
        row_variable = ''sin_datos'', media_evento = None,
        media_baseline = None, impacto_pct = None, n_dias_evento = 1,
        n_dias_baseline = 0, media_temp_evento = None,
        media_temp_baseline = Some 15, media_precip_evento = None,
        media_precip_baseline = Some 0, impacto_trafico_pct = Some 50\<rparr>]"
  by code_simp



theorem defined_impact_has_days_witness:
  "impacto_pct (hd (compute_event_impact [ev_sabado] (Some contam_demo2) (Some trafico_demo)
      (Some meteo_demo))) \<noteq> None
   \<and> 1 \<le> n_dias_evento (hd (compute_event_impact [ev_sabado] (Some contam_demo2)
      (Some trafico_demo) (Some meteo_demo)))
   \<and> 1 \<le> n_dias_baseline (hd (compute_event_impact [ev_sabado] (Some contam_demo2)
      (Some trafico_demo) (Some meteo_demo)))"
proof -
  let ?R = "compute_event_impact [ev_sabado] (Some contam_demo2) (Some trafico_demo)
      (Some meteo_demo)"
  have m: "hd ?R \<in> set ?R" by (simp add: rows_demo2)
  have d: "impacto_pct (hd ?R) \<noteq> None" by (simp add: rows_demo2)
  from defined_impact_has_days [of "[ev_sabado]" "Some contam_demo2" "Some trafico_demo"
      "Some meteo_demo"] m d
  have "1 \<le> n_dias_evento (hd ?R) \<and> 1 \<le> n_dias_baseline (hd ?R)" by blast
  with d show ?thesis by blast
qed


theorem every_event_has_a_row_witness:
  "(\<exists>r\<in>set (compute_event_impact [ev_sabado] None (Some trafico_demo) (Some meteo_demo)).
      row_evento_id r = evento_id ev_sabado)
   \<and> map row_evento_id (compute_event_impact [ev_sabado] None (Some trafico_demo)
        (Some meteo_demo)) = [''e1'']
   \<and> map impacto_pct (compute_event_impact [ev_sabado] None (Some trafico_demo)
        (Some meteo_demo)) = [None]
   \<and> map impacto_trafico_pct (compute_event_impact [ev_sabado] None (Some trafico_demo)
        (Some meteo_demo)) = [Some 50]"
proof -
  have e: "ev_sabado \<in> set [ev_sabado]" by simp
  from every_event_has_a_row [of "[ev_sabado]" None "Some trafico_demo" "Some meteo_demo"] e
  have "\<exists>r\<in>set (compute_event_impact [ev_sabado] None (Some trafico_demo) (Some meteo_demo)).
      row_evento_id r = evento_id ev_sabado"
    by blast
  then show ?thesis by (simp add: rows_sin_datos_demo)
qed

subsection \<open>Orchestration\<close>















end
